theory Spec2Isabelle
  imports Main "HOL-Library.Word"
begin

unbundle bit_operations_syntax

section \<open>printGZHeader: the program\<close>

text \<open>
  \<^verbatim>\<open>printGZHeader.c\<close> walks over the gzip members of one file. For each member
  \<^verbatim>\<open>get_header_for_zstream\<close> asks zlib for the header fields, prints them, lets zlib
  run to the end of the member and returns the number of input bytes zlib consumed;
  \<^verbatim>\<open>main\<close> seeks to the byte after the member and starts again.

  zlib is a library outside the program. It enters the model as a parameter
  (\<open>engine\<close>): three functions with the shapes of \<^verbatim>\<open>inflateInit2\<close>,
  \<^verbatim>\<open>inflateGetHeader\<close> and \<^verbatim>\<open>inflate\<close>. The functions of the program are
  translated statement by statement over that parameter.
\<close>

subsection \<open>C integers and constants\<close>

type_synonym byte = "8 word"

text \<open>\<^verbatim>\<open>uInt\<close> is 32 bits wide: a \<^verbatim>\<open>size_t\<close> or \<^verbatim>\<open>long\<close> stored into
  \<^verbatim>\<open>zs.avail_in\<close> or \<^verbatim>\<open>zs.avail_out\<close> keeps its low 32 bits.\<close>

definition uInt :: "nat \<Rightarrow> nat" where
  "uInt n = n mod 2 ^ 32"

text \<open>\<^verbatim>\<open>fposreset = zs.total_in\<close> stores a \<^verbatim>\<open>uLong\<close> into an \<^verbatim>\<open>int\<close>:
  the low 32 bits, read as two's complement. \<^verbatim>\<open>printf("%d", v)\<close> with a \<^verbatim>\<open>uLong\<close>
  \<open>v\<close> shows the same number.\<close>

definition c_int :: "nat \<Rightarrow> int" where
  "c_int n = (let m = n mod 2 ^ 32 in if m < 2 ^ 31 then int m else int m - 2 ^ 32)"

definition OUTBUF_MULT :: nat where
  "OUTBUF_MULT = 5"

definition STR_LEN :: nat where
  "STR_LEN = 512"

text \<open>The constants of \<^verbatim>\<open>zlib.h\<close> that the program names.\<close>

definition Z_OK :: int where "Z_OK = 0"
definition Z_STREAM_END :: int where "Z_STREAM_END = 1"
definition Z_ERRNO :: int where "Z_ERRNO = - 1"
definition Z_DATA_ERROR :: int where "Z_DATA_ERROR = - 3"
definition Z_BUF_ERROR :: int where "Z_BUF_ERROR = - 5"
definition Z_NO_FLUSH :: int where "Z_NO_FLUSH = 0"
definition Z_BLOCK :: int where "Z_BLOCK = 5"
definition MAX_WBITS :: int where "MAX_WBITS = 15"

subsection \<open>The input file\<close>

text \<open>A \<^verbatim>\<open>FILE *\<close> opened for reading on a regular file: its bytes, the position of
  the next read, and the end-of-file and error indicators.\<close>

record FILE =
  content :: "byte list"
  pos :: nat
  eof :: bool
  err :: bool

definition fopen :: "byte list \<Rightarrow> FILE" where
  "fopen bs = \<lparr>content = bs, pos = 0, eof = False, err = False\<rparr>"

text \<open>\<^verbatim>\<open>fread(buf, 1, n, f)\<close> delivers the next \<open>n\<close> bytes, or all that are left
  when there are fewer; the indicator is set when the request could not be filled.\<close>

definition fread :: "FILE \<Rightarrow> nat \<Rightarrow> byte list \<times> FILE" where
  "fread f n =
     (let got = take n (drop (pos f) (content f))
      in (got, f\<lparr>pos := pos f + length got, eof := eof f \<or> length got < n\<rparr>))"

definition feof :: "FILE \<Rightarrow> bool" where
  "feof f = eof f"

definition ferror :: "FILE \<Rightarrow> bool" where
  "ferror f = err f"

definition ftell :: "FILE \<Rightarrow> int" where
  "ftell f = int (pos f)"

text \<open>\<^verbatim>\<open>fseek(f, off, SEEK_SET)\<close>: a negative offset is refused and changes nothing; any
  other offset becomes the position (also one past the end) and clears the end-of-file
  indicator. The program ignores the value \<^verbatim>\<open>fseek\<close> returns.\<close>

definition fseek :: "FILE \<Rightarrow> int \<Rightarrow> FILE" where
  "fseek f off = (if off < 0 then f else f\<lparr>pos := nat off, eof := False\<rparr>)"

subsection \<open>The zlib interface\<close>

text \<open>The fields of \<^verbatim>\<open>gz_header\<close> the program touches. The struct is a local variable
  without initialiser: \<open>None\<close> is a field nobody has written yet. \<^verbatim>\<open>zhead.name\<close>
  points to the local array \<^verbatim>\<open>zname\<close>, whose cells are unwritten (\<open>None\<close>) at first;
  the array lives inside the pointer here, as nothing else refers to it.\<close>

datatype name_ptr = Z_NULL | Buffer "byte option list"

record gz_header =
  gz_time :: "nat option"
  gz_name :: "name_ptr option"
  gz_name_max :: "nat option"
  gz_comm_max :: "nat option"
  gz_extra_max :: "nat option"
  gz_done :: "int option"

text \<open>\<^verbatim>\<open>z_stream\<close>: \<open>next_in\<close> holds the \<^verbatim>\<open>avail_in\<close> bytes that start at the pointer
  \<^verbatim>\<open>next_in\<close>; the output buffer is never read by the program, so only its free
  space \<^verbatim>\<open>avail_out\<close> is kept. \<open>state\<close> is whatever the engine keeps between calls.\<close>

record 'e z_stream =
  next_in :: "byte list"
  avail_out :: nat
  total_in :: nat
  total_out :: nat
  state :: 'e

definition avail_in :: "'e z_stream \<Rightarrow> nat" where
  "avail_in zs = length (next_in zs)"

text \<open>The engine. \<open>inflateInit2\<close> takes \<^verbatim>\<open>windowBits\<close> and gives the return code and a
  fresh internal state; \<open>inflateGetHeader\<close> registers the header struct;
  \<open>inflate\<close> takes the stream, the registered header struct and the flush mode and gives
  the return code and both structs as the call leaves them.\<close>

record 'e engine =
  inflateInit2 :: "int \<Rightarrow> int \<times> 'e"
  inflateGetHeader :: "'e \<Rightarrow> gz_header \<Rightarrow> int \<times> 'e \<times> gz_header"
  inflate :: "'e z_stream \<Rightarrow> gz_header \<Rightarrow> int \<Rightarrow> int \<times> 'e z_stream \<times> gz_header"

subsection \<open>What the program prints and how it ends\<close>

text \<open>\<^verbatim>\<open>printf("%s", p)\<close>: the bytes before the first zero byte. Reading a cell nobody
  wrote, or running off the end of the array, gives no defined text.\<close>

datatype printed = Text "byte list" | Null_text | Garbage

fun c_string :: "byte option list \<Rightarrow> byte list option" where
  "c_string [] = None"
| "c_string (None # cs) = None"
| "c_string (Some b # cs) = (if b = 0 then Some [] else map_option ((#) b) (c_string cs))"

definition print_s :: "name_ptr option \<Rightarrow> printed" where
  "print_s p =
     (case p of
        None \<Rightarrow> Garbage
      | Some Z_NULL \<Rightarrow> Null_text
      | Some (Buffer cs) \<Rightarrow> (case c_string cs of None \<Rightarrow> Garbage | Some s \<Rightarrow> Text s))"

text \<open>One constructor for each line the program hands to \<^verbatim>\<open>printf\<close>. The time line
  carries the number only (the text \<^verbatim>\<open>asctime\<close> makes of it depends on the time zone).
  The time and the decompressed size are \<^verbatim>\<open>uLong\<close> values printed with \<^verbatim>\<open>%d\<close>,
  which shows their low 32 bits as a signed number. The positions of the begin and end
  lines are \<^verbatim>\<open>long\<close> values printed with \<^verbatim>\<open>%d\<close>; the lines carry the position
  itself, which is what is shown below \<open>2 ^ 31\<close>. A status of \<open>None\<close> is
  \<^verbatim>\<open>zhead.done\<close> printed before anybody wrote it.\<close>

datatype event =
    Separator
  | Member_begin nat int
  | Header_for nat string
  | Time_field int
  | Name_field printed
  | Done_field "int option" string
  | Decompressed_size int
  | Member_end nat int

text \<open>The fatal exits, in the order of the source: \<^verbatim>\<open>fopen\<close> failed;
  \<^verbatim>\<open>inflateInit2\<close> or \<^verbatim>\<open>inflateGetHeader\<close> did not return \<^verbatim>\<open>Z_OK\<close>; a read
  failed; the first read gave no bytes; the header call of \<^verbatim>\<open>inflate\<close> did not return
  \<^verbatim>\<open>Z_OK\<close>; a later call of \<^verbatim>\<open>inflate\<close> returned a negative code.\<close>

datatype fatal =
    FileOpenFailure
  | DecoderInitFailure int
  | GetHeaderFailure int
  | ReadIOFailure
  | EmptyReadFailure
  | HeaderParseFailure int
  | DecompressionFailure int


text \<open>A run ends in \<^verbatim>\<open>exit(code)\<close> or in \<^verbatim>\<open>return ret\<close> of \<^verbatim>\<open>main\<close>, where
  \<^verbatim>\<open>ret\<close> is \<open>None\<close> while it has not been assigned; the parent process sees the low
  eight bits of the value. The third way is \<open>Undefined\<close>: the run has passed a time
  that nobody wrote, or that no calendar holds, to \<^verbatim>\<open>localtime\<close>, \<^verbatim>\<open>asctime\<close> and
  \<^verbatim>\<open>strlen\<close> (lines 123 to 126). \<^verbatim>\<open>localtime\<close> may answer \<^verbatim>\<open>NULL\<close>, which the
  next two calls dereference, so the process may die there by a signal, with the lines
  printed so far still in the buffer of \<^verbatim>\<open>stdout\<close>; the source does not determine
  what happens from that point on, and the model says nothing about it.\<close>

datatype outcome = Exited fatal | Returned "int option" | Undefined



subsection \<open>\<^verbatim>\<open>get_header_for_zstream\<close>\<close>

definition zdone_descrip :: "int option \<Rightarrow> string" where
  "zdone_descrip d =
     (if d = Some 0 then ''Header is incomplete.''
      else if d = Some 1 then ''Header is complete.''
      else if d = Some 2 then ''Header is unavailable.''
      else ''Undefined'')"

lemma fread_progress:
  assumes "(got, f1) = fread f n" and "uInt (length got) \<noteq> 0"
  shows "length (content f1) - pos f1 < length (content f) - pos f"
proof -
  from assms(1) have got: "got = take n (drop (pos f) (content f))"
    and f1: "content f1 = content f" "pos f1 = pos f + length got"
    by (auto simp: fread_def Let_def)
  from assms(2) have "0 < length got"
    by (cases got) (auto simp: uInt_def)
  moreover from got have "length got \<le> length (content f) - pos f"
    by simp
  ultimately show ?thesis
    unfolding f1 by linarith
qed

text \<open>The \<^verbatim>\<open>do ... while (ret != Z_STREAM_END)\<close> loop of lines 146 to 165. The read
  overwrites \<^verbatim>\<open>zs.avail_in\<close> before the test for zero; the output buffer is reset only
  when the read delivered bytes.\<close>

function boundary_loop ::
  "'e engine \<Rightarrow> nat \<Rightarrow> 'e z_stream \<Rightarrow> gz_header \<Rightarrow> FILE \<Rightarrow> fatal + 'e z_stream \<times> FILE"
where
  "boundary_loop eng filesize zs zhead f =
     (case inflate eng zs zhead Z_NO_FLUSH of
        (r, zs1, zhead1) \<Rightarrow>
          if r < 0 then Inl (DecompressionFailure r)
          else
            (case fread f filesize of
               (got, f1) \<Rightarrow>
                 if ferror f1 then Inl ReadIOFailure
                 else if uInt (length got) = 0 then Inr (zs1\<lparr>next_in := []\<rparr>, f1)
                 else
                   (let zs2 = zs1\<lparr>next_in := take (uInt (length got)) got,
                                  avail_out := uInt (OUTBUF_MULT * filesize)\<rparr>
                    in if r \<noteq> Z_STREAM_END then boundary_loop eng filesize zs2 zhead1 f1
                       else Inr (zs2, f1))))"
  by pat_completeness auto
termination
  by (relation "measure (\<lambda>(eng, filesize, zs, zhead, f). length (content f) - pos f)")
     (auto dest: fread_progress)

declare boundary_loop.simps [simp del]

text \<open>Lines 57 to 106: the engine is initialised for gzip streams only, the header
  struct is registered and told where the name goes, and the first read fills the input
  buffer. The header struct starts with every field unwritten; the stream gets
  \<^verbatim>\<open>total_in = total_out = 0\<close> from \<^verbatim>\<open>inflateInit2\<close>.\<close>

definition zhead_unwritten :: gz_header where
  "zhead_unwritten =
     \<lparr>gz_time = None, gz_name = None, gz_name_max = None, gz_comm_max = None,
      gz_extra_max = None, gz_done = None\<rparr>"

definition member_setup ::
  "'e engine \<Rightarrow> FILE \<Rightarrow> nat \<Rightarrow> fatal + 'e z_stream \<times> gz_header \<times> FILE"
where
  "member_setup eng f filesize =
     (case inflateInit2 eng (16 + MAX_WBITS) of
        (r0, st0) \<Rightarrow>
          if r0 \<noteq> Z_OK then Inl (DecoderInitFailure r0)
          else
            (case inflateGetHeader eng st0 zhead_unwritten of
               (r1, st1, zhead1) \<Rightarrow>
                 if r1 \<noteq> Z_OK then Inl (GetHeaderFailure r1)
                 else
                   (let zhead2 = zhead1\<lparr>gz_name_max := Some (STR_LEN - 1),
                                         gz_comm_max := Some 0,
                                         gz_extra_max := Some 0,
                                         gz_name := Some (Buffer (replicate STR_LEN None))\<rparr>
                    in case fread f filesize of
                         (got, f1) \<Rightarrow>
                           if ferror f1 then Inl ReadIOFailure
                           else if uInt (length got) = 0 then Inl EmptyReadFailure
                           else Inr (\<lparr>next_in = take (uInt (length got)) got,
                                      avail_out = uInt (OUTBUF_MULT * filesize),
                                      total_in = 0, total_out = 0, state = st1\<rparr>,
                                     zhead2, f1))))"

text \<open>Lines 123 to 127, the time line. \<^verbatim>\<open>zhead.time\<close> goes through
  \<^verbatim>\<open>localtime\<close>, \<^verbatim>\<open>asctime\<close> and \<^verbatim>\<open>strlen\<close> before it is printed. For the
  times a gzip header can hold, four bytes, \<^verbatim>\<open>localtime\<close> gives a date between 1970
  and 2106 and \<^verbatim>\<open>asctime\<close> its text of 25 characters, whose final newline line 126
  cuts off. A field that nobody wrote holds whatever the stack held, and for a value far
  enough from 1970 \<^verbatim>\<open>localtime\<close> returns \<^verbatim>\<open>NULL\<close>: no line is defined then
  (\<open>None\<close>), nor for a written value of \<open>2 ^ 32\<close> or more, which this model does not
  follow through the calendar.\<close>

definition time_line :: "nat option \<Rightarrow> event option" where
  "time_line zt =
     (case zt of
        None \<Rightarrow> None
      | Some t \<Rightarrow> if t < 2 ^ 32 then Some (Time_field (c_int t)) else None)"

text \<open>Lines 120 to 143: the header lines, printed from whatever the header struct holds
  after the first call of \<^verbatim>\<open>inflate\<close>. The first line is out when the time is
  looked at; \<open>None\<close> is the run that stops being defined there.\<close>

definition header_lines :: "nat \<Rightarrow> string \<Rightarrow> gz_header \<Rightarrow> event list option" where
  "header_lines member_number inname zhead =
     (case time_line (gz_time zhead) of
        None \<Rightarrow> None
      | Some time \<Rightarrow>
          Some [Header_for member_number inname,
                time,
                Name_field (print_s (gz_name zhead)),
                Done_field (gz_done zhead) (zdone_descrip (gz_done zhead))])"

text \<open>Lines 42 to 176. The result is the lines printed and either the way the run ended
  inside the function (a fatal exit, or \<open>Undefined\<close> at the time line) or the returned
  \<^verbatim>\<open>int\<close> with the file as the reads left it. \<^verbatim>\<open>inflateEnd\<close> and \<^verbatim>\<open>free\<close>
  release memory and change nothing that is read afterwards; the value stored into
  \<^verbatim>\<open>fposreset\<close> on line 116 is overwritten on line 173 before any use.\<close>

definition get_header_for_zstream ::
  "'e engine \<Rightarrow> FILE \<Rightarrow> string \<Rightarrow> nat \<Rightarrow> nat \<Rightarrow> event list \<times> (outcome + int \<times> FILE)"
where
  "get_header_for_zstream eng f inname member_number filesize =
     (case member_setup eng f filesize of
        Inl e \<Rightarrow> ([], Inl (Exited e))
      | Inr (zs1, zhead2, f1) \<Rightarrow>
          (case inflate eng zs1 zhead2 Z_BLOCK of
             (r2, zs2, zhead3) \<Rightarrow>
               if r2 \<noteq> Z_OK then ([], Inl (Exited (HeaderParseFailure r2)))
               else
                 (case header_lines member_number inname zhead3 of
                    None \<Rightarrow> ([Header_for member_number inname], Inl Undefined)
                  | Some lines \<Rightarrow>
                      (case boundary_loop eng filesize zs2 zhead3 f1 of
                         Inl e \<Rightarrow> (lines, Inl (Exited e))
                       | Inr (zs3, f2) \<Rightarrow>
                           (lines @ [Decompressed_size (c_int (total_out zs3))],
                            Inr (c_int (total_in zs3), f2))))))"

subsection \<open>\<^verbatim>\<open>main\<close>\<close>

text \<open>The local variables of \<^verbatim>\<open>main\<close> that the loop reads or writes, and the lines
  printed so far.\<close>

record scan_state =
  stream :: FILE
  fposa :: int
  fposb :: int
  ret :: "int option"
  loopctr :: nat
  stdout :: "event list"

text \<open>The body of the \<^verbatim>\<open>while\<close> loop, lines 213 to 221.\<close>

definition scan_member ::
  "'e engine \<Rightarrow> string \<Rightarrow> nat \<Rightarrow> scan_state \<Rightarrow> event list \<times> outcome + scan_state"
where
  "scan_member eng inname filesize s =
     (let a = ftell (stream s);
          begun = stdout s @ [Separator, Member_begin (loopctr s) (ftell (stream s))]
      in case get_header_for_zstream eng (stream s) inname (loopctr s) filesize of
           (lines, Inl how) \<Rightarrow> Inl (begun @ lines, how)
         | (lines, Inr (r, f1)) \<Rightarrow>
             (let f2 = fseek f1 (a + r)
              in Inr \<lparr>stream = f2, fposa = a, fposb = ftell f2, ret = Some r,
                      loopctr = loopctr s + 1,
                      stdout = begun @ lines @
                        [Member_end (loopctr s) (ftell f2 - 1), Separator]\<rparr>))"

text \<open>The \<^verbatim>\<open>while\<close> loop. Nothing in the source bounds the number of rounds, so the loop
  is a partial function: \<open>None\<close> is a run that never leaves the loop. A round that
  ended the run ends the loop with what it printed.\<close>

partial_function (option) scan ::
  "'e engine \<Rightarrow> string \<Rightarrow> nat \<Rightarrow> scan_state \<Rightarrow> (event list \<times> outcome) option"
where
  "scan eng inname filesize s =
     (if \<not> feof (stream s) \<and> fposb s \<noteq> int filesize
      then (case scan_member eng inname filesize s of
              Inl (out, how) \<Rightarrow> Some (out, how)
            | Inr s' \<Rightarrow> scan eng inname filesize s')
      else Some (stdout s, Returned (ret s)))"

declare scan.simps [code]

text \<open>Lines 178 to 227. The file argument is \<open>None\<close> when \<^verbatim>\<open>fopen\<close> fails; otherwise
  it holds the bytes of a regular file, which every read delivers without error, and
  \<^verbatim>\<open>fstat\<close> gives their number.\<close>

definition main :: "'e engine \<Rightarrow> string \<Rightarrow> byte list option \<Rightarrow> (event list \<times> outcome) option"
where
  "main eng inname file =
     (case file of
        None \<Rightarrow> Some ([], Exited FileOpenFailure)
      | Some bytes \<Rightarrow>
          (let f = fopen bytes;
               filesize = length bytes
           in scan eng inname filesize
                \<lparr>stream = f, fposa = ftell f, fposb = ftell f, ret = None,
                 loopctr = 1, stdout = []\<rparr>))"

section \<open>A reference engine\<close>

text \<open>
  Theorems that hold for every engine are stated over the parameter. Where a statement
  is about what zlib answers (which header fields it fills, when it reports the end of a
  stream), and for concrete runs, the parameter is instantiated with \<open>zref\<close>: a
  decoder written after the zlib manual and RFC 1952 and 1951, for gzip streams whose
  deflate blocks are stored or use the fixed Huffman code (a block with a dynamic code is
  answered with \<^verbatim>\<open>Z_DATA_ERROR\<close>, so \<open>zref\<close> accepts fewer streams than zlib).
  \<open>zref\<close> keeps the input it has consumed and decodes from the start at each call, up
  to the output space the call gives it; the return codes, \<^verbatim>\<open>total_in\<close>,
  \<^verbatim>\<open>total_out\<close> and the header struct are those zlib leaves: \<^verbatim>\<open>Z_BUF_ERROR\<close>
  when a call could neither consume nor produce, a stop after the header for
  \<^verbatim>\<open>Z_BLOCK\<close>, \<^verbatim>\<open>done = 1\<close> once the whole header has been read, the name copied
  with its terminating zero only while fewer than \<^verbatim>\<open>name_max\<close> bytes are stored.
\<close>

subsection \<open>Bits, numbers, checksum\<close>

definition bits_of_byte :: "byte \<Rightarrow> bool list" where
  "bits_of_byte b = map (bit b) [0..<8]"

definition bits_of :: "byte list \<Rightarrow> bool list" where
  "bits_of bs = concat (map bits_of_byte bs)"

fun lsb_val :: "bool list \<Rightarrow> nat" where
  "lsb_val [] = 0"
| "lsb_val (b # bs) = of_bool b + 2 * lsb_val bs"

definition msb_val :: "bool list \<Rightarrow> nat" where
  "msb_val bs = lsb_val (rev bs)"

fun le_val :: "byte list \<Rightarrow> nat" where
  "le_val [] = 0"
| "le_val (b # bs) = unat b + 256 * le_val bs"

text \<open>The CRC-32 of gzip, bit by bit on the 32-bit register (a number below \<open>2 ^ 32\<close>).\<close>

definition crc_bit :: "nat \<Rightarrow> nat" where
  "crc_bit c = (if odd c then (c div 2) XOR 0xEDB88320 else c div 2)"

definition crc_byte :: "nat \<Rightarrow> byte \<Rightarrow> nat" where
  "crc_byte c b = (crc_bit ^^ 8) (c XOR unat b)"

definition crc32 :: "byte list \<Rightarrow> nat" where
  "crc32 bs = foldl crc_byte 0xFFFFFFFF bs XOR 0xFFFFFFFF"

subsection \<open>The gzip header\<close>

datatype stop = Need_input | Out_full | At_block | Stream_end | Data_error

datatype name_write = Keep | Set_null | Write "byte list"

record hdr_parse =
  hp_stop :: "stop option"
  hp_len :: nat
  hp_time :: "nat option"
  hp_name :: name_write
  hp_done :: "int option"

fun cstr_split :: "byte list \<Rightarrow> (byte list \<times> byte list) option" where
  "cstr_split [] = None"
| "cstr_split (b # bs) =
     (if b = 0 then Some ([], bs)
      else map_option (\<lambda>(n, r). (b # n, r)) (cstr_split bs))"

definition gz_extra :: "byte \<Rightarrow> byte list \<Rightarrow> byte list option" where
  "gz_extra flg r =
     (if flg AND 4 = 0 then Some r
      else if length r < 2 then None
      else if length r < 2 + le_val (take 2 r) then None
      else Some (drop (2 + le_val (take 2 r)) r))"

definition gz_name_field :: "nat \<Rightarrow> byte \<Rightarrow> byte list \<Rightarrow> name_write \<times> byte list option" where
  "gz_name_field name_max flg r =
     (if flg AND 8 = 0 then (Set_null, Some r)
      else case cstr_split r of
             None \<Rightarrow> (Write (take name_max r), None)
           | Some (n, r') \<Rightarrow> (Write (take name_max (n @ [0])), Some r'))"

definition gz_comment :: "byte \<Rightarrow> byte list \<Rightarrow> byte list option" where
  "gz_comment flg r =
     (if flg AND 16 = 0 then Some r else map_option snd (cstr_split r))"

definition gz_hcrc :: "byte \<Rightarrow> byte list \<Rightarrow> byte list \<Rightarrow> (bool \<times> byte list) option" where
  "gz_hcrc flg hdr r =
     (if flg AND 2 = 0 then Some (True, r)
      else if length r < 2 then None
      else Some (le_val (take 2 r) = crc32 hdr mod 65536, drop 2 r))"

definition hdr_more :: "byte list \<Rightarrow> nat option \<Rightarrow> name_write \<Rightarrow> hdr_parse" where
  "hdr_more bs t n =
     \<lparr>hp_stop = Some Need_input, hp_len = length bs, hp_time = t, hp_name = n, hp_done = None\<rparr>"

definition hdr_bad :: "nat \<Rightarrow> nat option \<Rightarrow> name_write \<Rightarrow> int option \<Rightarrow> hdr_parse" where
  "hdr_bad k t n d =
     \<lparr>hp_stop = Some Data_error, hp_len = k, hp_time = t, hp_name = n, hp_done = d\<rparr>"

definition gz_fields :: "nat \<Rightarrow> byte \<Rightarrow> nat option \<Rightarrow> byte list \<Rightarrow> hdr_parse" where
  "gz_fields name_max flg t bs =
     (case gz_extra flg (drop 10 bs) of
        None \<Rightarrow> hdr_more bs t Keep
      | Some r1 \<Rightarrow>
          (case gz_name_field name_max flg r1 of
             (n, None) \<Rightarrow> hdr_more bs t n
           | (n, Some r2) \<Rightarrow>
               (case gz_comment flg r2 of
                  None \<Rightarrow> hdr_more bs t n
                | Some r3 \<Rightarrow>
                    (case gz_hcrc flg (take (length bs - length r3) bs) r3 of
                       None \<Rightarrow> hdr_more bs t n
                     | Some (ok, r4) \<Rightarrow>
                         if ok
                         then \<lparr>hp_stop = None, hp_len = length bs - length r4,
                               hp_time = t, hp_name = n, hp_done = Some 1\<rparr>
                         else hdr_bad (length bs - length r4) t n None))))"

definition gz_head :: "nat \<Rightarrow> byte list \<Rightarrow> hdr_parse" where
  "gz_head name_max bs =
     (if length bs < 2 then hdr_more bs None Keep
      else if take 2 bs \<noteq> [0x1f, 0x8b] then hdr_bad 2 None Keep (Some (- 1))
      else if length bs < 4 then hdr_more bs None Keep
      else if bs ! 2 \<noteq> 8 then hdr_bad 4 None Keep None
      else if bs ! 3 AND 0xE0 \<noteq> 0 then hdr_bad 4 None Keep None
      else if length bs < 8 then hdr_more bs None Keep
      else if length bs < 10 then hdr_more bs (Some (le_val (take 4 (drop 4 bs)))) Keep
      else gz_fields name_max (bs ! 3) (Some (le_val (take 4 (drop 4 bs)))) bs)"

subsection \<open>Deflate blocks\<close>

definition len_base :: "nat list" where
  "len_base = [3, 4, 5, 6, 7, 8, 9, 10, 11, 13, 15, 17, 19, 23, 27, 31, 35, 43, 51, 59,
               67, 83, 99, 115, 131, 163, 195, 227, 258]"

definition len_extra :: "nat list" where
  "len_extra = [0, 0, 0, 0, 0, 0, 0, 0, 1, 1, 1, 1, 2, 2, 2, 2, 3, 3, 3, 3,
                4, 4, 4, 4, 5, 5, 5, 5, 0]"

definition dist_base :: "nat list" where
  "dist_base = [1, 2, 3, 4, 5, 7, 9, 13, 17, 25, 33, 49, 65, 97, 129, 193, 257, 385, 513,
                769, 1025, 1537, 2049, 3073, 4097, 6145, 8193, 12289, 16385, 24577]"

definition dist_extra :: "nat list" where
  "dist_extra = [0, 0, 0, 0, 1, 1, 2, 2, 3, 3, 4, 4, 5, 5, 6, 6, 7, 7, 8, 8, 9, 9,
                 10, 10, 11, 11, 12, 12, 13, 13]"

definition fixed_sym :: "bool list \<Rightarrow> (nat \<times> bool list) option" where
  "fixed_sym bits =
     (let v7 = msb_val (take 7 bits); v8 = msb_val (take 8 bits); v9 = msb_val (take 9 bits)
      in if length bits < 7 then None
         else if v7 < 24 then Some (256 + v7, drop 7 bits)
         else if length bits < 8 then None
         else if v8 < 192 then Some (v8 - 48, drop 8 bits)
         else if v8 < 200 then Some (280 + (v8 - 192), drop 8 bits)
         else if length bits < 9 then None
         else Some (144 + (v9 - 400), drop 9 bits))"

primrec lz_copy :: "byte list \<Rightarrow> nat \<Rightarrow> nat \<Rightarrow> byte list" where
  "lz_copy out d 0 = out"
| "lz_copy out d (Suc n) = lz_copy (out @ [out ! (length out - d)]) d n"

datatype step =
    Go "byte list" "bool list"
  | Block_end "byte list" "bool list"
  | Halt stop "bool list" "byte list"

definition fixed_match :: "nat \<Rightarrow> byte list \<Rightarrow> nat \<Rightarrow> bool list \<Rightarrow> step" where
  "fixed_match cap out s bits =
     (let le = len_extra ! (s - 257)
      in if length bits < le + 5 then Halt Need_input [] out
         else
           (let len = len_base ! (s - 257) + lsb_val (take le bits);
                dc = msb_val (take 5 (drop le bits));
                r1 = drop (le + 5) bits
            in if 30 \<le> dc then Halt Data_error r1 out
               else
                 (let de = dist_extra ! dc
                  in if length r1 < de then Halt Need_input [] out
                     else
                       (let d = dist_base ! dc + lsb_val (take de r1);
                            r2 = drop de r1
                        in if length out < d then Halt Data_error r2 out
                           else if cap - length out < len
                           then Halt Out_full r2 (lz_copy out d (cap - length out))
                           else Go (lz_copy out d len) r2))))"

definition fixed_step :: "nat \<Rightarrow> byte list \<Rightarrow> bool list \<Rightarrow> step" where
  "fixed_step cap out bits =
     (case fixed_sym bits of
        None \<Rightarrow> Halt Need_input [] out
      | Some (s, r) \<Rightarrow>
          if s < 256 then (if length out < cap then Go (out @ [of_nat s]) r else Halt Out_full r out)
          else if s = 256 then Block_end out r
          else if 286 \<le> s then Halt Data_error r out
          else fixed_match cap out s r)"

lemma fixed_sym_shorter: "fixed_sym bits = Some (s, r) \<Longrightarrow> length r < length bits"
  by (auto simp: fixed_sym_def Let_def split: if_splits)

lemma fixed_match_shorter:
  "fixed_match cap out s bits = Go out' r \<Longrightarrow> length r \<le> length bits"
  by (auto simp: fixed_match_def Let_def split: if_splits)

lemma fixed_step_shorter: "fixed_step cap out bits = Go out' r \<Longrightarrow> length r < length bits"
  by (auto simp: fixed_step_def split: option.splits if_splits
      dest!: fixed_sym_shorter fixed_match_shorter)

function fixed_block :: "nat \<Rightarrow> byte list \<Rightarrow> bool list \<Rightarrow> step" where
  "fixed_block cap out bits =
     (case fixed_step cap out bits of
        Go out' r \<Rightarrow> fixed_block cap out' r
      | x \<Rightarrow> x)"
  by pat_completeness auto
termination
  by (relation "measure (\<lambda>(cap, out, bits). length bits)") (auto dest: fixed_step_shorter)

declare fixed_block.simps [simp del]

primrec bytes_n :: "nat \<Rightarrow> bool list \<Rightarrow> byte list" where
  "bytes_n 0 bits = []"
| "bytes_n (Suc n) bits = of_nat (lsb_val (take 8 bits)) # bytes_n n (drop 8 bits)"

definition stored_block :: "nat \<Rightarrow> byte list \<Rightarrow> bool list \<Rightarrow> step" where
  "stored_block cap out bits =
     (let r = drop (length bits mod 8) bits
      in if length r < 32 then Halt Need_input [] out
         else
           (let len = lsb_val (take 16 r);
                nlen = lsb_val (take 16 (drop 16 r));
                r1 = drop 32 r;
                n = min len (min (length r1 div 8) (cap - length out));
                out' = out @ bytes_n n r1
            in if len + nlen \<noteq> 65535 then Halt Data_error r1 out
               else if n = len then Block_end out' (drop (8 * n) r1)
               else if n = cap - length out then Halt Out_full (drop (8 * n) r1) out'
               else Halt Need_input [] out'))"

definition gz_trailer :: "byte list \<Rightarrow> bool list \<Rightarrow> stop \<times> bool list \<times> byte list" where
  "gz_trailer out bits =
     (let r = drop (length bits mod 8) bits
      in if length r < 32 then (Need_input, [], out)
         else if lsb_val (take 32 r) \<noteq> crc32 out then (Data_error, drop 32 r, out)
         else if length r < 64 then (Need_input, [], out)
         else if lsb_val (take 32 (drop 32 r)) \<noteq> length out mod 2 ^ 32
           then (Data_error, drop 64 r, out)
         else (Stream_end, drop 64 r, out))"

definition one_block :: "nat \<Rightarrow> byte list \<Rightarrow> bool list \<Rightarrow> step" where
  "one_block cap out bits =
     (let btype = lsb_val (take 2 (drop 1 bits)); r = drop 3 bits
      in if length bits < 3 then Halt Need_input [] out
         else if btype = 0 then stored_block cap out r
         else if btype = 1 then fixed_block cap out r
         else Halt Data_error r out)"

lemma fixed_block_shorter:
  "fixed_block cap out bits = Block_end out' r \<Longrightarrow> length r < length bits"
proof (induction cap out bits rule: fixed_block.induct)
  case (1 cap out bits)
  show ?case
  proof (cases "fixed_step cap out bits")
    case (Go o1 r1)
    with "1.prems" have "fixed_block cap o1 r1 = Block_end out' r"
      by (simp add: fixed_block.simps [of cap out bits])
    with Go have "length r < length r1"
      by (rule "1.IH")
    moreover from Go have "length r1 < length bits"
      by (rule fixed_step_shorter)
    ultimately show ?thesis
      by simp
  next
    case (Block_end o1 r1)
    with "1.prems" have "r1 = r"
      by (simp add: fixed_block.simps [of cap out bits])
    with Block_end show ?thesis
      by (auto simp: fixed_step_def fixed_match_def Let_def split: option.splits if_splits
          dest!: fixed_sym_shorter)
  next
    case (Halt k r1 o1)
    with "1.prems" show ?thesis
      by (simp add: fixed_block.simps [of cap out bits])
  qed
qed

lemma stored_block_shorter:
  assumes "stored_block cap out bits = Block_end out' r"
  shows "length r \<le> length bits"
proof -
  define r1 where "r1 = drop 32 (drop (length bits mod 8) bits)"
  define n where "n = min (lsb_val (take 16 (drop (length bits mod 8) bits)))
    (min (length r1 div 8) (cap - length out))"
  from assms have "r = drop (8 * n) r1"
    unfolding stored_block_def Let_def r1_def [symmetric] n_def [symmetric]
    by (simp split: if_splits)
  then show ?thesis
    by (simp add: r1_def)
qed

lemma one_block_shorter:
  assumes "one_block cap out bits = Block_end out' r"
  shows "length r < length bits"
proof -
  from assms have len: "3 \<le> length bits"
    by (simp add: one_block_def Let_def split: if_splits)
  from assms have "stored_block cap out (drop 3 bits) = Block_end out' r
      \<or> fixed_block cap out (drop 3 bits) = Block_end out' r"
    by (simp add: one_block_def Let_def split: if_splits)
  then have "length r \<le> length (drop 3 bits)"
    using stored_block_shorter fixed_block_shorter less_imp_le by blast
  with len show ?thesis
    by simp
qed

definition at_limit :: "nat option \<Rightarrow> bool list \<Rightarrow> bool" where
  "at_limit lim r = (case lim of None \<Rightarrow> False | Some l \<Rightarrow> length r < l)"

function inflate_blocks ::
  "nat option \<Rightarrow> nat \<Rightarrow> byte list \<Rightarrow> bool list \<Rightarrow> stop \<times> bool list \<times> byte list"
where
  "inflate_blocks lim cap out bits =
     (case one_block cap out bits of
        Halt k r out' \<Rightarrow> (k, r, out')
      | Go out' r \<Rightarrow> (Data_error, r, out')
      | Block_end out' r \<Rightarrow>
          if at_limit lim r then (At_block, r, out')
          else if bits ! 0 then gz_trailer out' r
          else inflate_blocks lim cap out' r)"
  by pat_completeness auto
termination
  by (relation "measure (\<lambda>(lim, cap, out, bits). length bits)")
     (auto dest: one_block_shorter)

declare inflate_blocks.simps [simp del]

definition gz_run :: "nat \<Rightarrow> nat option \<Rightarrow> nat \<Rightarrow> byte list \<Rightarrow> stop \<times> nat \<times> byte list \<times> hdr_parse"
where
  "gz_run name_max lim cap bs =
     (let h = gz_head name_max bs
      in case hp_stop h of
           Some k \<Rightarrow> (k, hp_len h, [], h)
         | None \<Rightarrow>
             (let r = bits_of (drop (hp_len h) bs)
              in if at_limit lim r then (At_block, hp_len h, [], h)
                 else case inflate_blocks lim cap [] r of
                        (k, r', out) \<Rightarrow> (k, (8 * length bs - length r' + 7) div 8, out, h)))"

subsection \<open>The engine\<close>

record zref_state =
  seen :: "byte list"
  registered :: bool

definition write_name :: "name_write \<Rightarrow> name_ptr option \<Rightarrow> name_ptr option" where
  "write_name w p =
     (case w of
        Keep \<Rightarrow> p
      | Set_null \<Rightarrow> Some Z_NULL
      | Write bs \<Rightarrow>
          (case p of
             Some (Buffer cells) \<Rightarrow> Some (Buffer (map Some bs @ drop (length bs) cells))
           | _ \<Rightarrow> p))"

definition write_head :: "hdr_parse \<Rightarrow> gz_header \<Rightarrow> gz_header" where
  "write_head h zhead =
     zhead\<lparr>gz_time := (case hp_time h of None \<Rightarrow> gz_time zhead | Some t \<Rightarrow> Some t),
        gz_name := write_name (hp_name h) (gz_name zhead),
        gz_done := (case hp_done h of None \<Rightarrow> gz_done zhead | Some d \<Rightarrow> Some d)\<rparr>"

definition zref_inflate ::
  "zref_state z_stream \<Rightarrow> gz_header \<Rightarrow> int \<Rightarrow> int \<times> zref_state z_stream \<times> gz_header"
where
  "zref_inflate zs zhead flush =
     (let all = seen (state zs) @ next_in zs;
          name_max = (case gz_name_max zhead of None \<Rightarrow> 0 | Some m \<Rightarrow> m);
          lim = (if flush = Z_BLOCK then Some (8 * length (next_in zs)) else None)
      in case gz_run name_max lim (total_out zs + avail_out zs) all of
           (k, used, out, h) \<Rightarrow>
             (let n_in = used - length (seen (state zs));
                  n_out = length out - total_out zs
              in (if k = Stream_end then Z_STREAM_END
                  else if k = Data_error then Z_DATA_ERROR
                  else if n_in = 0 \<and> n_out = 0 then Z_BUF_ERROR
                  else Z_OK,
                  \<lparr>next_in = drop n_in (next_in zs),
                   avail_out = avail_out zs - n_out,
                   total_in = total_in zs + n_in,
                   total_out = total_out zs + n_out,
                   state = (state zs)\<lparr>seen := take used all\<rparr>\<rparr>,
                  if registered (state zs) then write_head h zhead else zhead)))"

definition zref :: "zref_state engine" where
  "zref =
     \<lparr>inflateInit2 = (\<lambda>windowBits.
        (if 24 \<le> windowBits \<and> windowBits \<le> 31 then Z_OK else - 2,
         \<lparr>seen = [], registered = False\<rparr>)),
      inflateGetHeader = (\<lambda>st zhead. (Z_OK, st\<lparr>registered := True\<rparr>, zhead\<lparr>gz_done := Some 0\<rparr>)),
      inflate = zref_inflate\<rparr>"

subsection \<open>Well-formed headers\<close>

text \<open>The bytes of a gzip header as RFC 1952 lays them out: the magic number, the method
  8, the flag byte, the modification time in four bytes, the extra flags and the operating
  system, and then, each only when its flag is set, the extra field behind its length in
  two bytes, the name and the comment, each closed by a zero byte, and the low 16 bits of
  the CRC-32 of all bytes before. Numbers are stored with the low byte first. A header is
  well formed when no reserved flag is set, the extra field fits its length field, and
  name and comment hold no zero byte.\<close>

fun le_bytes :: "nat \<Rightarrow> nat \<Rightarrow> byte list" where
  "le_bytes 0 v = []"
| "le_bytes (Suc k) v = of_nat (v mod 256) # le_bytes k (v div 256)"

definition gz_header_bytes ::
  "byte \<Rightarrow> nat \<Rightarrow> byte \<Rightarrow> byte \<Rightarrow> byte list \<Rightarrow> byte list \<Rightarrow> byte list \<Rightarrow> byte list"
where
  "gz_header_bytes flg mtime xfl os extra name comment =
     (let base = [0x1f, 0x8b, 8, flg] @ le_bytes 4 mtime @ [xfl, os]
            @ (if flg AND 4 = 0 then [] else le_bytes 2 (length extra) @ extra)
            @ (if flg AND 8 = 0 then [] else name @ [0])
            @ (if flg AND 16 = 0 then [] else comment @ [0])
      in base @ (if flg AND 2 = 0 then [] else le_bytes 2 (crc32 base)))"

definition well_formed :: "byte \<Rightarrow> byte list \<Rightarrow> byte list \<Rightarrow> byte list \<Rightarrow> bool" where
  "well_formed flg extra name comment =
     (flg AND 0xE0 = 0 \<and> length extra < 65536 \<and> 0 \<notin> set name \<and> 0 \<notin> set comment)"

subsection \<open>Three small files\<close>

text \<open>\<open>hi_gz\<close> and \<open>yo_gz\<close> are the gzip members of the texts \<^verbatim>\<open>hi\<close> and
  \<^verbatim>\<open>yo\<close> with the names \<^verbatim>\<open>a.txt\<close> and \<^verbatim>\<open>b.txt\<close>, 28 bytes each;
  \<open>zeros_gz\<close> is the gzip member of 200 zero bytes without a name, 24 bytes. All three
  are as zlib's \<^verbatim>\<open>deflate\<close> writes them at level 9 (modification time 0).\<close>

definition hi_gz :: "byte list" where
  "hi_gz = [0x1f, 0x8b, 0x08, 0x08, 0x00, 0x00, 0x00, 0x00, 0x02, 0x03,
            0x61, 0x2e, 0x74, 0x78, 0x74, 0x00,
            0xcb, 0xc8, 0x04, 0x00,
            0xac, 0x2a, 0x93, 0xd8, 0x02, 0x00, 0x00, 0x00]"

definition yo_gz :: "byte list" where
  "yo_gz = [0x1f, 0x8b, 0x08, 0x08, 0x00, 0x00, 0x00, 0x00, 0x02, 0x03,
            0x62, 0x2e, 0x74, 0x78, 0x74, 0x00,
            0xab, 0xcc, 0x07, 0x00,
            0x89, 0xac, 0x29, 0x62, 0x02, 0x00, 0x00, 0x00]"

definition zeros_gz :: "byte list" where
  "zeros_gz = [0x1f, 0x8b, 0x08, 0x00, 0x00, 0x00, 0x00, 0x00, 0x02, 0x03,
               0x63, 0x60, 0x18, 0x1e, 0x00, 0x00,
               0x76, 0xa8, 0x71, 0xc9, 0xc8, 0x00, 0x00, 0x00]"

text \<open>The definitions a concrete run unfolds, with the loops over eight bits written
  out and two facts that keep long lists short.\<close>

lemma bits_of_byte_eq:
  "bits_of_byte b = [bit b 0, bit b 1, bit b 2, bit b 3, bit b 4, bit b 5, bit b 6, bit b 7]"
  by (simp add: bits_of_byte_def upt_rec eval_nat_numeral)

lemma crc_byte_eq:
  "crc_byte c b =
     crc_bit (crc_bit (crc_bit (crc_bit (crc_bit (crc_bit (crc_bit (crc_bit
       (c XOR unat b))))))))"
  by (simp add: crc_byte_def numeral_eq_Suc)

lemma replicate_numeral: "replicate (numeral k) x = x # replicate (pred_numeral k) x"
  by (simp add: numeral_eq_Suc)

lemma c_string_unwritten: "0 < n \<Longrightarrow> c_string (replicate n None) = None"
  by (cases n) simp_all

lemma lz_copy_run: "out \<noteq> [] \<Longrightarrow> lz_copy out (Suc 0) n = out @ replicate n (last out)"
proof (induction n arbitrary: out)
  case 0
  then show ?case by simp
next
  case (Suc n)
  from Suc.prems have "out ! (length out - Suc 0) = last out"
    by (simp add: last_conv_nth)
  with Suc show ?case
    by (simp add: replicate_app_Cons_same)
qed

lemmas program_defs =
  main_def fopen_def fread_def feof_def ferror_def ftell_def fseek_def
  scan_member_def get_header_for_zstream_def member_setup_def header_lines_def time_line_def
  zhead_unwritten_def print_s_def zdone_descrip_def uInt_def c_int_def
  OUTBUF_MULT_def STR_LEN_def Z_OK_def Z_STREAM_END_def Z_ERRNO_def Z_DATA_ERROR_def
  Z_BUF_ERROR_def Z_NO_FLUSH_def Z_BLOCK_def MAX_WBITS_def Let_def c_string_unwritten
  boundary_loop.simps scan.simps

lemmas zref_defs =
  zref_def zref_inflate_def gz_run_def gz_head_def gz_fields_def hdr_more_def hdr_bad_def
  gz_extra_def gz_name_field_def
  gz_comment_def gz_hcrc_def write_head_def write_name_def at_limit_def bits_of_def
  bits_of_byte_eq one_block_def stored_block_def gz_trailer_def fixed_step_def
  fixed_match_def fixed_sym_def msb_val_def len_base_def len_extra_def dist_base_def
  dist_extra_def crc32_def crc_byte_eq crc_bit_def lz_copy_run fixed_block.simps
  inflate_blocks.simps

section \<open>The scanner\<close>

subsection \<open>One round of the loop\<close>

text \<open>What a round has printed when it ends, whichever way it ends.\<close>

definition printed_by :: "event list \<times> outcome + scan_state \<Rightarrow> event list" where
  "printed_by x = (case x of Inl (out, e) \<Rightarrow> out | Inr s \<Rightarrow> stdout s)"

lemma scan_member_begins:
  "\<exists>rest. printed_by (scan_member eng inname filesize s)
     = stdout s @ [Separator, Member_begin (loopctr s) (ftell (stream s))] @ rest"
  by (auto simp: scan_member_def printed_by_def Let_def split: prod.splits sum.splits)

lemma scan_member_Inr:
  assumes "get_header_for_zstream eng (stream s) inname (loopctr s) filesize
             = (lines, Inr (r, f1))"
  shows "scan_member eng inname filesize s =
     Inr \<lparr>stream = fseek f1 (ftell (stream s) + r), fposa = ftell (stream s),
          fposb = ftell (fseek f1 (ftell (stream s) + r)), ret = Some r,
          loopctr = loopctr s + 1,
          stdout = stdout s @ [Separator, Member_begin (loopctr s) (ftell (stream s))] @ lines @
            [Member_end (loopctr s) (ftell (fseek f1 (ftell (stream s) + r)) - 1), Separator]\<rparr>"
  using assms by (simp add: scan_member_def Let_def)

text \<open>
  C9. A round that decodes its member (the decoder returns \<open>r\<close>, and the seek to
  \<open>start + r\<close> is not refused) prints as end of the member the position \<open>start + r - 1\<close>,
  the last byte of the member, and leaves the file cursor and \<^verbatim>\<open>fposb\<close> at
  \<open>start + r\<close>; the next round prints that position as the beginning of its member.
\<close>

theorem member_end_line_is_cursor_minus_one:
  assumes "get_header_for_zstream eng (stream s) inname (loopctr s) filesize
             = (lines, Inr (r, f1))"
    and "0 \<le> ftell (stream s) + r"
  shows "\<exists>s' rest. scan_member eng inname filesize s = Inr s'
           \<and> stdout s' = stdout s @ [Separator, Member_begin (loopctr s) (ftell (stream s))]
                 @ lines @ [Member_end (loopctr s) (ftell (stream s) + r - 1), Separator]
           \<and> ftell (stream s') = ftell (stream s) + r
           \<and> fposb s' = ftell (stream s) + r
           \<and> printed_by (scan_member eng inname filesize s')
               = stdout s' @ [Separator, Member_begin (loopctr s + 1) (ftell (stream s) + r)]
                   @ rest"
proof -
  let ?s' = "\<lparr>stream = fseek f1 (ftell (stream s) + r), fposa = ftell (stream s),
          fposb = ftell (fseek f1 (ftell (stream s) + r)), ret = Some r,
          loopctr = loopctr s + 1,
          stdout = stdout s @ [Separator, Member_begin (loopctr s) (ftell (stream s))] @ lines @
            [Member_end (loopctr s) (ftell (fseek f1 (ftell (stream s) + r)) - 1), Separator]\<rparr>"
  have step: "scan_member eng inname filesize s = Inr ?s'"
    using assms(1) by (rule scan_member_Inr)
  have cursor: "ftell (fseek f1 (ftell (stream s) + r)) = ftell (stream s) + r"
    using assms(2) by (simp add: fseek_def ftell_def)
  obtain rest where "printed_by (scan_member eng inname filesize ?s')
      = stdout ?s' @ [Separator, Member_begin (loopctr ?s') (ftell (stream ?s'))] @ rest"
    using scan_member_begins by blast
  with step cursor show ?thesis
    by simp
qed

theorem member_end_line_is_cursor_minus_one_witness:
  "\<exists>s' rest.
     scan_member zref ''two.gz'' 56
       \<lparr>stream = fopen (hi_gz @ yo_gz), fposa = 0, fposb = 0, ret = None, loopctr = 1,
        stdout = []\<rparr> = Inr s'
     \<and> stdout s' =
         [Separator, Member_begin 1 0, Header_for 1 ''two.gz'', Time_field 0,
          Name_field (Text [0x61, 0x2e, 0x74, 0x78, 0x74]),
          Done_field (Some 1) ''Header is complete.'', Decompressed_size 2,
          Member_end 1 27, Separator]
     \<and> ftell (stream s') = 28
     \<and> fposb s' = 28
     \<and> printed_by (scan_member zref ''two.gz'' 56 s')
         = stdout s' @ [Separator, Member_begin 2 28] @ rest"
proof -
  let ?s = "\<lparr>stream = fopen (hi_gz @ yo_gz), fposa = 0, fposb = 0, ret = None, loopctr = 1,
        stdout = []\<rparr>"
  have dec: "get_header_for_zstream zref (stream ?s) ''two.gz'' (loopctr ?s) 56 =
      ([Header_for 1 ''two.gz'', Time_field 0,
        Name_field (Text [0x61, 0x2e, 0x74, 0x78, 0x74]),
        Done_field (Some 1) ''Header is complete.'', Decompressed_size 2],
       Inr (28, \<lparr>content = hi_gz @ yo_gz, pos = 56, eof = True, err = False\<rparr>))"
    by (simp add: program_defs zref_defs hi_gz_def yo_gz_def)
  have "0 \<le> ftell (stream ?s) + 28"
    by (simp add: ftell_def)
  from member_end_line_is_cursor_minus_one [OF dec this]
  show ?thesis
    by (simp add: ftell_def fopen_def numeral_2_eq_2)
qed

subsection \<open>The empty file\<close>

text \<open>
  C8. For a file of length 0 the loop condition is false at once
  (\<^verbatim>\<open>fposb = 0 = filesize\<close>): no round runs, nothing is printed, and \<^verbatim>\<open>main\<close>
  returns \<^verbatim>\<open>ret\<close>, which no statement has assigned.
\<close>

theorem empty_file_returns_unassigned_ret:
  "main eng inname (Some []) = Some ([], Returned None)"
  by (simp add: main_def fopen_def ftell_def scan.simps)

subsection \<open>One member, read in one piece\<close>

text \<open>A read at or past the end of the file delivers nothing.\<close>

lemma fread_at_end:
  "length (content f) \<le> pos f \<Longrightarrow> fread f n = ([], f\<lparr>eof := eof f \<or> 0 < n\<rparr>)"
  by (simp add: fread_def)

lemma member_setup_Inr:
  assumes "member_setup eng f filesize = Inr (zs1, zhead2, f1)"
  shows "f1 = snd (fread f filesize)"
    and "next_in zs1 = take (uInt (length (fst (fread f filesize)))) (fst (fread f filesize))"
    and "avail_out zs1 = uInt (OUTBUF_MULT * filesize)"
    and "total_in zs1 = 0" and "total_out zs1 = 0"
    and "\<not> ferror f"
  using assms
  by (auto simp: member_setup_def Let_def ferror_def fread_def split: prod.splits if_splits)

text \<open>When the first read took all that was left of the file, the loop makes one call
  of \<^verbatim>\<open>inflate\<close>; the read that follows delivers nothing and ends the loop, whatever
  code not below zero the call returned.\<close>

lemma boundary_loop_once:
  assumes "inflate eng zs zhead Z_NO_FLUSH = (r, zs', zhead')"
    and "0 \<le> r" and "length (content f) \<le> pos f" and "\<not> ferror f"
  shows "boundary_loop eng filesize zs zhead f
           = Inr (zs'\<lparr>next_in := []\<rparr>, f\<lparr>eof := eof f \<or> 0 < filesize\<rparr>)"
  using assms
  by (subst boundary_loop.simps) (simp add: fread_at_end ferror_def uInt_def)

lemma header_lines_Some:
  "gz_time zhead = Some t \<Longrightarrow> t < 2 ^ 32 \<Longrightarrow>
     header_lines n inname zhead =
       Some [Header_for n inname, Time_field (c_int t), Name_field (print_s (gz_name zhead)),
             Done_field (gz_done zhead) (zdone_descrip (gz_done zhead))]"
  by (simp add: header_lines_def time_line_def)

lemma get_header_single_pass:
  assumes start: "member_setup eng f filesize = Inr (zs1, zhead2, f1)"
    and fits: "length (content f) \<le> pos f + filesize"
    and hdr: "inflate eng zs1 zhead2 Z_BLOCK = (Z_OK, zs2, zhead3)"
    and body: "inflate eng zs2 zhead3 Z_NO_FLUSH = (r, zs3, zhead4)"
    and ok: "0 \<le> r"
    and time: "header_lines n inname zhead3 = Some lines"
  shows "get_header_for_zstream eng f inname n filesize =
           (lines @ [Decompressed_size (c_int (total_out zs3))],
            Inr (c_int (total_in zs3), f1\<lparr>eof := eof f1 \<or> 0 < filesize\<rparr>))"
proof -
  from start have f1: "f1 = snd (fread f filesize)" and noerr: "\<not> ferror f"
    by (rule member_setup_Inr)+
  from f1 fits have "length (content f1) \<le> pos f1" and "\<not> ferror f1"
    using noerr by (auto simp: fread_def Let_def ferror_def)
  with body ok
  have "boundary_loop eng filesize zs2 zhead3 f1
          = Inr (zs3\<lparr>next_in := []\<rparr>, f1\<lparr>eof := eof f1 \<or> 0 < filesize\<rparr>)"
    by (rule boundary_loop_once)
  with start hdr time show ?thesis
    by (simp add: get_header_for_zstream_def)
qed

text \<open>
  C10. The stream handed to zlib has room for \<^verbatim>\<open>OUTBUF_MULT * filesize\<close> bytes of
  output at most. When the call of \<^verbatim>\<open>inflate\<close> in the loop returns without an error
  and without \<^verbatim>\<open>Z_STREAM_END\<close> (zlib does so when that room is used up), the next
  read delivers nothing, the loop ends without a fatal exit, and
  \<^verbatim>\<open>get_header_for_zstream\<close> returns the input count reached so far: less than the
  member's length whenever zlib has not consumed the whole member. The header call has
  written the time by then (\<open>t\<close>, four bytes of the header), so the header lines are
  defined.
\<close>

theorem full_output_buffer_returns_partial_count:
  assumes "member_setup eng f filesize = Inr (zs1, zhead2, f1)"
    and "length (content f) \<le> pos f + filesize"
    and "inflate eng zs1 zhead2 Z_BLOCK = (Z_OK, zs2, zhead3)"
    and "inflate eng zs2 zhead3 Z_NO_FLUSH = (r, zs3, zhead4)"
    and "0 \<le> r" and "r \<noteq> Z_STREAM_END"
    and "total_in zs3 < member_length" and "member_length < 2 ^ 31"
    and "gz_time zhead3 = Some t" and "t < 2 ^ 32"
  shows "avail_out zs1 \<le> OUTBUF_MULT * filesize
       \<and> (\<exists>lines f2. get_header_for_zstream eng f inname n filesize
              = (lines, Inr (c_int (total_in zs3), f2)))
       \<and> c_int (total_in zs3) < int member_length"
proof -
  from assms(1) have "avail_out zs1 = uInt (OUTBUF_MULT * filesize)"
    by (rule member_setup_Inr)
  then have "avail_out zs1 \<le> OUTBUF_MULT * filesize"
    by (simp add: uInt_def)
  moreover have "\<exists>lines f2. get_header_for_zstream eng f inname n filesize
      = (lines, Inr (c_int (total_in zs3), f2))"
    using get_header_single_pass [OF assms(1-5) header_lines_Some [OF assms(9,10)]] by blast
  moreover from assms(7,8) have "c_int (total_in zs3) < int member_length"
    by (simp add: c_int_def Let_def)
  ultimately show ?thesis
    by blast
qed

theorem full_output_buffer_returns_partial_count_witness:
  "avail_out \<lparr>next_in = zeros_gz, avail_out = 120, total_in = 0, total_out = 0,
              state = \<lparr>seen = [], registered = True\<rparr>\<rparr> \<le> OUTBUF_MULT * 24
   \<and> (\<exists>lines f2. get_header_for_zstream zref (fopen zeros_gz) ''z.gz'' 1 24
          = (lines, Inr (15, f2)))
   \<and> (15 :: int) < 24"
proof -
  let ?zhead2 = "\<lparr>gz_time = None, gz_name = Some (Buffer (replicate 512 None)),
      gz_name_max = Some 511, gz_comm_max = Some 0, gz_extra_max = Some 0,
      gz_done = Some 0\<rparr>"
  let ?zhead3 = "?zhead2\<lparr>gz_time := Some 0, gz_name := Some Z_NULL, gz_done := Some 1\<rparr>"
  let ?zs1 = "\<lparr>next_in = zeros_gz, avail_out = 120, total_in = 0, total_out = 0,
      state = \<lparr>seen = [], registered = True\<rparr>\<rparr>"
  let ?zs2 = "\<lparr>next_in = drop 10 zeros_gz, avail_out = 120, total_in = 10, total_out = 0,
      state = \<lparr>seen = take 10 zeros_gz, registered = True\<rparr>\<rparr>"
  let ?zs3 = "\<lparr>next_in = drop 15 zeros_gz, avail_out = 0, total_in = 15, total_out = 120,
      state = \<lparr>seen = take 15 zeros_gz, registered = True\<rparr>\<rparr>"
  have start: "member_setup zref (fopen zeros_gz) 24
      = Inr (?zs1, ?zhead2, \<lparr>content = zeros_gz, pos = 24, eof = False, err = False\<rparr>)"
    by (simp add: program_defs zref_def zeros_gz_def)
  have fits: "length (content (fopen zeros_gz)) \<le> pos (fopen zeros_gz) + 24"
    by (simp add: fopen_def zeros_gz_def)
  have hdr: "inflate zref ?zs1 ?zhead2 Z_BLOCK = (Z_OK, ?zs2, ?zhead3)"
    by (simp add: program_defs zref_defs zeros_gz_def)
  have body: "inflate zref ?zs2 ?zhead3 Z_NO_FLUSH = (0, ?zs3, ?zhead3)"
    by (simp add: program_defs zref_defs zeros_gz_def)
  have "total_in ?zs3 < 24" and "0 \<noteq> Z_STREAM_END" and time: "gz_time ?zhead3 = Some 0"
    by (simp_all add: Z_STREAM_END_def)
  from full_output_buffer_returns_partial_count
    [OF start fits hdr body _ \<open>0 \<noteq> Z_STREAM_END\<close> \<open>total_in ?zs3 < 24\<close> _ time, of "''z.gz''" 1]
  show ?thesis
    by (simp add: c_int_def)
qed

subsection \<open>How a run ends\<close>















section \<open>Runs with the reference engine\<close>

subsection \<open>A file cut after five bytes\<close>

text \<open>
  C4 (the code at a gzip file cut after its first five bytes: the magic number, the
  method 8, a flag byte without reserved bits, one byte of the time). zlib takes the five
  bytes, waits for more and returns \<^verbatim>\<open>Z_OK\<close>, so the test of line 110 lets the run
  pass, although the header struct is not populated (\<^verbatim>\<open>done\<close> is 0). The first
  header line is printed, and the time, which zlib has not written, is handed to
  \<^verbatim>\<open>localtime\<close>, \<^verbatim>\<open>asctime\<close> and \<^verbatim>\<open>strlen\<close>: the run has no defined behaviour
  from there. A process that gets past these lines prints the remaining header lines and
  exits at the first call of \<^verbatim>\<open>inflate\<close> in the loop, with \<^verbatim>\<open>Z_BUF_ERROR\<close>. The
  claim asks for a fatal exit of the header call or of the empty read, before any header
  line.
\<close>

theorem five_byte_file_passes_the_header_check:
  assumes "flg AND 0xE0 = 0"
  shows "main zref inname (Some [0x1f, 0x8b, 8, flg, t0]) =
       Some ([Separator, Member_begin 1 0, Header_for 1 inname], Undefined)
     \<and> (\<exists>zs1 zhead2 f1 zs2 zhead3.
           member_setup zref (fopen [0x1f, 0x8b, 8, flg, t0]) 5 = Inr (zs1, zhead2, f1)
         \<and> inflate zref zs1 zhead2 Z_BLOCK = (Z_OK, zs2, zhead3)
         \<and> gz_time zhead3 = None \<and> gz_done zhead3 = Some 0
         \<and> boundary_loop zref 5 zs2 zhead3 f1 = Inl (DecompressionFailure Z_BUF_ERROR))"
  using assms by (simp add: program_defs zref_defs)

theorem five_byte_file_passes_the_header_check_witness:
  "(8 :: byte) AND 0xE0 = 0
   \<and> main zref ''named.gz'' (Some [0x1f, 0x8b, 8, 8, 0x5a]) =
       Some ([Separator, Member_begin 1 0, Header_for 1 ''named.gz''], Undefined)
   \<and> (\<exists>zs1 zhead2 f1 zs2 zhead3.
         member_setup zref (fopen [0x1f, 0x8b, 8, 8, 0x5a]) 5 = Inr (zs1, zhead2, f1)
       \<and> inflate zref zs1 zhead2 Z_BLOCK = (Z_OK, zs2, zhead3)
       \<and> gz_time zhead3 = None \<and> gz_done zhead3 = Some 0
       \<and> boundary_loop zref 5 zs2 zhead3 f1 = Inl (DecompressionFailure Z_BUF_ERROR))"
proof -
  have flags: "(8 :: byte) AND 0xE0 = 0"
    by simp
  from five_byte_file_passes_the_header_check [OF flags, of "''named.gz''" "0x5a"] flags
  show ?thesis
    by simp
qed

subsection \<open>A member that expands to more than five times the file\<close>

text \<open>\<open>zeros_gz\<close> is one well-formed member: with room for its 200 bytes of output the
  engine reaches the end of the stream after all 24 bytes.\<close>

lemma zeros_gz_is_one_member:
  "fst (gz_run 511 None 200 zeros_gz) = Stream_end
   \<and> fst (snd (gz_run 511 None 200 zeros_gz)) = 24
   \<and> fst (snd (snd (gz_run 511 None 200 zeros_gz))) = replicate 200 0"
  by (simp add: zref_defs zeros_gz_def replicate_numeral)

text \<open>
  C1 (the code at a valid one-member file). The file has 24 bytes, so zlib gets room for
  120 bytes of output; it stops with \<^verbatim>\<open>Z_OK\<close> after 15 bytes of input, the read that
  follows is empty, and the member is reported to end at byte 14. The next round starts
  inside the member, at byte 15, and exits on \<^verbatim>\<open>Z_DATA_ERROR\<close>. The claim asks for one
  member that ends at byte 23.
\<close>

theorem member_of_zeros_is_cut_short:
  "length zeros_gz = 24
   \<and> main zref ''z.gz'' (Some zeros_gz) =
       Some ([Separator, Member_begin 1 0, Header_for 1 ''z.gz'', Time_field 0,
              Name_field Null_text, Done_field (Some 1) ''Header is complete.'',
              Decompressed_size 120, Member_end 1 14, Separator,
              Separator, Member_begin (Suc 1) 15],
             Exited (HeaderParseFailure Z_DATA_ERROR))"
  by (simp add: program_defs zref_defs zeros_gz_def)

text \<open>
  C2 (the code at a member whose output does not fit). \<open>zeros_gz\<close> is one member of
  24 bytes. As the whole of a file it gets room for 120 bytes of output: the call in the
  loop stops with \<^verbatim>\<open>Z_OK\<close> after 15 bytes of input, the read that follows is empty,
  the loop ends at the \<^verbatim>\<open>break\<close> and the function returns 15, a normal return, where
  the claim asks for 24. With the 28 bytes of \<open>yo_gz\<close> behind it the file has 52
  bytes, the room is 260 bytes, and the function returns 24 for the same member: the
  returned count depends on how many bytes follow the member.
\<close>

theorem returned_count_depends_on_what_follows:
  "length zeros_gz = 24
   \<and> get_header_for_zstream zref (fopen zeros_gz) ''z.gz'' 1 24 =
       ([Header_for 1 ''z.gz'', Time_field 0, Name_field Null_text,
         Done_field (Some 1) ''Header is complete.'', Decompressed_size 120],
        Inr (15, \<lparr>content = zeros_gz, pos = 24, eof = True, err = False\<rparr>))
   \<and> get_header_for_zstream zref (fopen (zeros_gz @ yo_gz)) ''zy.gz'' 1 52 =
       ([Header_for 1 ''zy.gz'', Time_field 0, Name_field Null_text,
         Done_field (Some 1) ''Header is complete.'', Decompressed_size 200],
        Inr (24, \<lparr>content = zeros_gz @ yo_gz, pos = 52, eof = True, err = False\<rparr>))"
  by (simp add: program_defs zref_defs zeros_gz_def yo_gz_def replicate_numeral)

subsection \<open>Does the loop end?\<close>






subsection \<open>The loop with the reference engine\<close>








lemma length_bits_of: "length (bits_of bs) = 8 * length bs"
  by (induction bs) (simp_all add: bits_of_def bits_of_byte_def)














section \<open>The header lines of a well-formed member\<close>

text \<open>The reference engine reads back what \<open>gz_header_bytes\<close> lays out.\<close>

lemma length_le_bytes: "length (le_bytes k v) = k"
  by (induction k arbitrary: v) simp_all


lemma le_val_le_bytes: "le_val (le_bytes k v) = v mod 256 ^ k"
proof (induction k arbitrary: v)
  case 0
  then show ?case by simp
next
  case (Suc k)
  have "unat (of_nat (v mod 256) :: byte) = v mod 256"
    by (simp add: unat_of_nat)
  with Suc show ?case
    by (simp add: mod_mult2_eq)
qed

lemma cstr_split_terminated: "0 \<notin> set n \<Longrightarrow> cstr_split (n @ 0 # r) = Some (n, r)"
  by (induction n) auto

lemma gz_extra_encoded:
  assumes "length extra < 65536"
  shows "gz_extra flg ((if flg AND 4 = 0 then [] else le_bytes 2 (length extra) @ extra) @ r) = Some r"
proof (cases "flg AND 4 = 0")
  case True
  then show ?thesis
    by (simp add: gz_extra_def)
next
  case False
  have "take 2 (le_bytes 2 (length extra) @ extra @ r) = le_bytes 2 (length extra)"
    by (simp add: length_le_bytes)
  then have "le_val (take 2 (le_bytes 2 (length extra) @ extra @ r)) = length extra"
    using assms by (simp only: le_val_le_bytes) simp
  with False show ?thesis
    by (simp add: gz_extra_def length_le_bytes)
qed

lemma gz_name_field_encoded:
  assumes "0 \<notin> set name"
  shows "gz_name_field nm flg ((if flg AND 8 = 0 then [] else name @ [0]) @ r)
    = (if flg AND 8 = 0 then Set_null else Write (take nm (name @ [0])), Some r)"
  using assms by (simp add: gz_name_field_def cstr_split_terminated)

lemma gz_comment_encoded:
  assumes "0 \<notin> set comment"
  shows "gz_comment flg ((if flg AND 16 = 0 then [] else comment @ [0]) @ r) = Some r"
  using assms by (simp add: gz_comment_def cstr_split_terminated)

lemma gz_hcrc_encoded:
  "gz_hcrc flg base ((if flg AND 2 = 0 then [] else le_bytes 2 (crc32 base)) @ r) = Some (True, r)"
proof (cases "flg AND 2 = 0")
  case True
  then show ?thesis
    by (simp add: gz_hcrc_def)
next
  case False
  have "take 2 (le_bytes 2 (crc32 base) @ r) = le_bytes 2 (crc32 base)"
    by (simp add: length_le_bytes)
  then have "le_val (take 2 (le_bytes 2 (crc32 base) @ r)) = crc32 base mod 65536"
    by (simp only: le_val_le_bytes) simp
  with False show ?thesis
    by (simp add: gz_hcrc_def length_le_bytes)
qed

lemma gz_head_encoded:
  assumes "well_formed flg extra name comment"
  shows "gz_head nm (gz_header_bytes flg mtime xfl os extra name comment @ rest) =
    \<lparr>hp_stop = None,
     hp_len = length (gz_header_bytes flg mtime xfl os extra name comment),
     hp_time = Some (mtime mod 2 ^ 32),
     hp_name = (if flg AND 8 = 0 then Set_null else Write (take nm (name @ [0]))),
     hp_done = Some 1\<rparr>"
proof -
  define fixed where "fixed = [0x1f, 0x8b, 8, flg] @ le_bytes 4 mtime @ [xfl, os]"
  define e where "e = (if flg AND 4 = 0 then [] else le_bytes 2 (length extra) @ extra)"
  define n where "n = (if flg AND 8 = 0 then [] else name @ [0])"
  define c where "c = (if flg AND 16 = 0 then [] else comment @ [0])"
  define base where "base = fixed @ e @ n @ c"
  define k where "k = (if flg AND 2 = 0 then [] else le_bytes 2 (crc32 base))"
  define bs where "bs = gz_header_bytes flg mtime xfl os extra name comment @ rest"
  have bs: "bs = fixed @ e @ n @ c @ k @ rest"
    and hdr: "gz_header_bytes flg mtime xfl os extra name comment = base @ k"
    by (simp_all add: bs_def gz_header_bytes_def Let_def fixed_def e_def n_def c_def k_def base_def)
  have len: "length fixed = 10"
    by (simp add: fixed_def length_le_bytes)
  from assms have wf: "flg AND 0xE0 = 0" "length extra < 65536" "0 \<notin> set name" "0 \<notin> set comment"
    by (simp_all add: well_formed_def)
  have t: "le_val (take 4 (drop 4 bs)) = mtime mod 2 ^ 32"
  proof -
    have "take 4 (drop 4 bs) = le_bytes 4 mtime"
      by (simp add: bs fixed_def length_le_bytes)
    then show ?thesis
      by (simp only: le_val_le_bytes) simp
  qed
  have s1: "gz_extra flg (drop 10 bs) = Some (n @ c @ k @ rest)"
    using gz_extra_encoded [OF wf(2), of flg "n @ c @ k @ rest"] len by (simp add: bs e_def)
  define w where "w = (if flg AND 8 = 0 then Set_null else Write (take nm (name @ [0])))"
  have s2: "gz_name_field nm flg (n @ c @ k @ rest) = (w, Some (c @ k @ rest))"
    unfolding n_def w_def by (rule gz_name_field_encoded [OF wf(3)])
  have s3: "gz_comment flg (c @ k @ rest) = Some (k @ rest)"
    unfolding c_def by (rule gz_comment_encoded [OF wf(4)])
  have tk: "take (length bs - (length k + length rest)) bs = base"
    by (simp add: bs base_def)
  have s4: "gz_hcrc flg base (k @ rest) = Some (True, rest)"
    unfolding k_def by (rule gz_hcrc_encoded)
  have l: "length bs - length rest = length (base @ k)"
    by (simp add: bs base_def)
  have "gz_head nm bs = gz_fields nm flg (Some (le_val (take 4 (drop 4 bs)))) bs"
    using wf(1) len by (simp add: gz_head_def) (simp add: bs fixed_def)
  also have "\<dots> = \<lparr>hp_stop = None, hp_len = length (base @ k),
      hp_time = Some (mtime mod 2 ^ 32), hp_name = w, hp_done = Some 1\<rparr>"
    unfolding t by (simp add: gz_fields_def s1 s2 s3 tk s4 l)
  finally show ?thesis
    by (simp only: bs_def hdr w_def)
qed

lemma length_gz_header_bytes: "10 \<le> length (gz_header_bytes flg mtime xfl os extra name comment)"
  by (simp add: gz_header_bytes_def Let_def length_le_bytes)

lemma zref_header_call:
  assumes wf: "well_formed flg extra name comment"
    and nm: "gz_name_max zhead = Some nm"
  shows "\<exists>zs2. zref_inflate
      \<lparr>next_in = gz_header_bytes flg mtime xfl os extra name comment @ rest, avail_out = cap,
       total_in = 0, total_out = 0, state = \<lparr>seen = [], registered = True\<rparr>\<rparr> zhead Z_BLOCK =
    (Z_OK, zs2,
     zhead\<lparr>gz_time := Some (mtime mod 2 ^ 32),
           gz_name := write_name (if flg AND 8 = 0 then Set_null else Write (take nm (name @ [0])))
                        (gz_name zhead),
           gz_done := Some 1\<rparr>)"
proof -
  let ?hdr = "gz_header_bytes flg mtime xfl os extra name comment"
  let ?h = "\<lparr>hp_stop = None, hp_len = length ?hdr, hp_time = Some (mtime mod 2 ^ 32),
     hp_name = (if flg AND 8 = 0 then Set_null else Write (take nm (name @ [0]))),
     hp_done = Some 1\<rparr>"
  have h: "gz_head nm (?hdr @ rest) = ?h"
    using wf by (rule gz_head_encoded)
  have pos: "0 < length ?hdr"
    using length_gz_header_bytes [of flg mtime xfl os extra name comment] by linarith
  then have "at_limit (Some (8 * length (?hdr @ rest))) (bits_of (drop (length ?hdr) (?hdr @ rest)))"
    by (simp add: at_limit_def length_bits_of)
  with h have run: "gz_run nm (Some (8 * length (?hdr @ rest))) cap (?hdr @ rest)
      = (At_block, length ?hdr, [], ?h)"
    by (simp add: gz_run_def Let_def)
  show ?thesis
    using pos by (simp add: zref_inflate_def Let_def nm run write_head_def del: length_append)
qed

lemma c_string_terminated:
  "0 \<notin> set name \<Longrightarrow> c_string (map Some (name @ [0]) @ cells) = Some name"
  by (induction name) auto

lemma c_string_unterminated:
  "0 \<notin> set xs \<Longrightarrow> c_string (map Some xs @ replicate k None) = None"
proof (induction xs)
  case Nil
  then show ?case by (cases k) simp_all
next
  case (Cons x xs)
  then show ?case by simp
qed

lemma print_s_name:
  assumes "0 \<notin> set name"
  shows "print_s (write_name (Write (take 511 (name @ [0]))) (Some (Buffer (replicate 512 None))))
    = (if length name < 511 then Text name else Garbage)"
proof (cases "length name < 511")
  case True
  then have "take 511 (name @ [0]) = name @ [0]"
    by simp
  with assms True show ?thesis
    by (simp add: print_s_def write_name_def c_string_terminated del: map_append)
next
  case False
  then have cut: "take 511 (name @ [0]) = take 511 name" and len: "length (take 511 name) = 511"
    by simp_all
  have "0 \<notin> set (take 511 name)"
    using assms by (auto dest: in_set_takeD)
  then have "c_string (map Some (take 511 name) @ replicate 1 None) = None"
    by (rule c_string_unterminated)
  with False show ?thesis
    by (simp add: print_s_def write_name_def cut len)
qed

text \<open>A member that starts with a well-formed header at the cursor, in a file that the
  first read takes whole: the four header lines are printed, whatever the loop does with
  the rest of the member.\<close>

lemma well_formed_header_lines:
  assumes wf: "well_formed flg extra name comment"
    and here: "drop (pos f) (content f) = gz_header_bytes flg mtime xfl os extra name comment @ rest"
    and fits: "length (content f) \<le> pos f + filesize"
    and small: "length (content f) - pos f < 2 ^ 32"
    and noerr: "\<not> ferror f"
  shows "\<exists>tail how. get_header_for_zstream zref f inname n filesize =
     ([Header_for n inname, Time_field (c_int (mtime mod 2 ^ 32)),
       Name_field (if flg AND 8 = 0 then Null_text
                   else if length name < 511 then Text name else Garbage),
       Done_field (Some 1) ''Header is complete.''] @ tail, how)"
proof -
  let ?hdr = "gz_header_bytes flg mtime xfl os extra name comment"
  let ?zhead2 = "\<lparr>gz_time = None, gz_name = Some (Buffer (replicate 512 None)),
      gz_name_max = Some 511, gz_comm_max = Some 0, gz_extra_max = Some 0, gz_done = Some 0\<rparr>"
  let ?zs1 = "\<lparr>next_in = ?hdr @ rest, avail_out = uInt (OUTBUF_MULT * filesize),
      total_in = 0, total_out = 0, state = \<lparr>seen = [], registered = True\<rparr>\<rparr>"
  define bs where "bs = ?hdr @ rest"
  have "fst (fread f filesize) = take filesize (drop (pos f) (content f))"
    by (simp add: fread_def Let_def)
  also from fits have "\<dots> = drop (pos f) (content f)"
    by simp
  also from here have "\<dots> = bs"
    by (simp only: bs_def)
  finally have got: "fst (fread f filesize) = bs" .
  from here have len: "length bs = length (content f) - pos f"
    unfolding bs_def by (metis length_drop)
  with small have u: "uInt (length bs) = length bs"
    by (simp add: uInt_def)
  have "0 < length bs"
    using length_gz_header_bytes [of flg mtime xfl os extra name comment]
    unfolding bs_def length_append by linarith
  with u have nonempty: "uInt (length bs) \<noteq> 0"
    by simp
  obtain f1 where rd: "fread f filesize = (bs, f1)" and f1: "ferror f1 = ferror f"
    using got by (cases "fread f filesize") (auto simp: fread_def Let_def ferror_def)
  from rd f1 noerr nonempty u
  have "member_setup zref f filesize =
      Inr (\<lparr>next_in = bs, avail_out = uInt (OUTBUF_MULT * filesize),
            total_in = 0, total_out = 0, state = \<lparr>seen = [], registered = True\<rparr>\<rparr>, ?zhead2, f1)"
    by (simp add: member_setup_def zref_def zhead_unwritten_def Z_OK_def MAX_WBITS_def
        STR_LEN_def Let_def)
  then have start: "member_setup zref f filesize = Inr (?zs1, ?zhead2, f1)"
    by (simp only: bs_def)
  have "gz_name_max ?zhead2 = Some 511"
    by simp
  from zref_header_call [OF wf this, of mtime xfl os rest "uInt (OUTBUF_MULT * filesize)"]
  obtain zs2 where hdr: "inflate zref ?zs1 ?zhead2 Z_BLOCK =
      (Z_OK, zs2, ?zhead2\<lparr>gz_time := Some (mtime mod 2 ^ 32),
           gz_name := write_name (if flg AND 8 = 0 then Set_null
                                  else Write (take 511 (name @ [0])))
                        (gz_name ?zhead2),
           gz_done := Some 1\<rparr>)"
    by (auto simp: zref_def)
  from wf have "0 \<notin> set name"
    by (simp add: well_formed_def)
  have name: "print_s (write_name (if flg AND 8 = 0 then Set_null
        else Write (take 511 (name @ [0]))) (Some (Buffer (replicate 512 None))))
      = (if flg AND 8 = 0 then Null_text else if length name < 511 then Text name else Garbage)"
  proof (cases "flg AND 8 = 0")
    case True
    then show ?thesis
      by (simp add: write_name_def print_s_def)
  next
    case False
    with print_s_name [OF \<open>0 \<notin> set name\<close>] show ?thesis
      by (simp only: if_False)
  qed
  show ?thesis
    by (cases "boundary_loop zref filesize zs2
          (?zhead2\<lparr>gz_time := Some (mtime mod 2 ^ 32),
             gz_name := write_name (if flg AND 8 = 0 then Set_null
                                    else Write (take 511 (name @ [0])))
                          (gz_name ?zhead2),
             gz_done := Some 1\<rparr>) f1")
       (auto simp: get_header_for_zstream_def start hdr header_lines_def time_line_def
          zdone_descrip_def name Z_OK_def simp del: length_append)
qed




text \<open>
  C5 (the code at a stored name of 511 bytes or more). For a member that begins with a
  well-formed header: without the name flag the name line shows the null pointer; a
  stored name of at most 510 bytes is printed as it is stored. zlib copies a name into
  \<^verbatim>\<open>zname\<close> with its terminating zero only while fewer than \<^verbatim>\<open>name_max = 511\<close> bytes
  have been stored, so of a name of 511 bytes or more it stores 511 bytes and no
  terminator; \<^verbatim>\<open>zname[511]\<close> has never been written, and \<^verbatim>\<open>printf("%s")\<close> reads on
  through it: what the name line shows after the 511 bytes is not defined. The claim asks
  for the name cut to 511 bytes, with its terminator.
\<close>

theorem name_line_of_a_well_formed_header:
  assumes "well_formed flg extra name comment"
    and "drop (pos f) (content f) = gz_header_bytes flg mtime xfl os extra name comment @ rest"
    and "length (content f) \<le> pos f + filesize"
    and "length (content f) - pos f < 2 ^ 32"
    and "\<not> ferror f"
  shows "\<exists>timed status tail how. get_header_for_zstream zref f inname n filesize =
     (Header_for n inname # timed
        # Name_field (if flg AND 8 = 0 then Null_text
                      else if length name < 511 then Text name else Garbage)
        # status # tail, how)"
  using well_formed_header_lines [OF assms, of inname n] by auto

theorem name_line_of_a_well_formed_header_witness:
  "well_formed 8 [] (replicate 511 0x61) []
   \<and> length (replicate 511 (0x61 :: byte)) = 511
   \<and> (\<exists>timed status tail how.
         get_header_for_zstream zref
           (fopen (gz_header_bytes 8 0 2 3 [] (replicate 511 0x61) [] @ drop 16 hi_gz))
           ''long.gz'' 1 534 =
         (Header_for 1 ''long.gz'' # timed # Name_field Garbage # status # tail, how))"
proof -
  let ?file = "gz_header_bytes 8 0 2 3 [] (replicate 511 0x61) [] @ drop 16 hi_gz"
  have wf: "well_formed 8 [] (replicate 511 0x61) []"
    by (simp add: well_formed_def)
  have here: "drop (pos (fopen ?file)) (content (fopen ?file)) = ?file"
    by (simp add: fopen_def)
  have len: "length ?file = 534"
    by (simp add: gz_header_bytes_def length_le_bytes hi_gz_def)
  then have fits: "length (content (fopen ?file)) \<le> pos (fopen ?file) + 534"
    and small: "length (content (fopen ?file)) - pos (fopen ?file) < 2 ^ 32"
    by (simp_all add: fopen_def)
  have noerr: "\<not> ferror (fopen ?file)"
    by (simp add: fopen_def ferror_def)
  from name_line_of_a_well_formed_header [OF wf here fits small noerr, of "''long.gz''" 1]
  have "\<exists>timed status tail how.
         get_header_for_zstream zref (fopen ?file) ''long.gz'' 1 534 =
         (Header_for 1 ''long.gz'' # timed # Name_field Garbage # status # tail, how)"
    by simp
  with wf show ?thesis
    by simp
qed

end
